theory Spec2Isabelle
  imports Main "HOL-Library.Sublist"
begin

section \<open>psiphon/utils.go: the NoticeConsoleRewriter\<close>

text \<open>
  A shallow embedding of \<^verbatim>\<open>NoticeConsoleRewriter\<close>, its constructor and its
  \<^verbatim>\<open>Write\<close> method. Go's \<^verbatim>\<open>[]byte\<close> and \<^verbatim>\<open>string\<close> are byte sequences,
  here \<open>char list\<close>. The \<^verbatim>\<open>sync.Mutex\<close> field is left out: the model is the
  sequential behaviour of one call after another.
\<close>

subsection \<open>Bytes, errors and writers\<close>

type_synonym bytes = string

abbreviation newline :: char where
  "newline \<equiv> CHR 0x0A"

text \<open>
  A Go \<^verbatim>\<open>error\<close> is \<open>error option\<close>, \<open>None\<close> for \<^verbatim>\<open>nil\<close>. The first two are what
  \<^verbatim>\<open>json.Unmarshal\<close> reports, the last what an \<^verbatim>\<open>io.Writer\<close> reports.
\<close>

datatype error = SyntaxError | UnmarshalTypeError | WriteError

text \<open>
  The \<^verbatim>\<open>io.Writer\<close> values of the process: \<^verbatim>\<open>os.Stderr\<close> and any number of
  others. Each has a state: the chunks it has taken so far, and whether its
  \<^verbatim>\<open>Write\<close> fails. A failing writer takes nothing and returns an error.
\<close>

datatype io_Writer = os_Stderr | other_Writer nat

record sink =
  received :: "bytes list"
  failing :: bool

type_synonym world = "io_Writer \<Rightarrow> sink"

definition io_Write :: "io_Writer \<Rightarrow> bytes \<Rightarrow> world \<Rightarrow> (nat \<times> error option) \<times> world" where
  "io_Write dst p w =
     (if failing (w dst) then ((0, Some WriteError), w)
      else ((length p, None), w(dst := (w dst)\<lparr>received := received (w dst) @ [p]\<rparr>)))"

text \<open>
  \<^verbatim>\<open>fmt.Fprintf(dst, "%s %s %s\n", a, b, c)\<close>: the three strings, separated by
  single spaces and ended by a newline, handed to the writer in one \<^verbatim>\<open>Write\<close>.
\<close>

definition Sprintf_notice :: "bytes \<Rightarrow> bytes \<Rightarrow> bytes \<Rightarrow> bytes" where
  "Sprintf_notice a b c = a @ '' '' @ b @ '' '' @ c @ [newline]"

definition fmt_Fprintf ::
  "io_Writer \<Rightarrow> bytes \<Rightarrow> bytes \<Rightarrow> bytes \<Rightarrow> world \<Rightarrow> (nat \<times> error option) \<times> world" where
  "fmt_Fprintf dst a b c w = io_Write dst (Sprintf_notice a b c) w"

text \<open>
  \<^verbatim>\<open>bytes.Index(s, sep)\<close>: the index of the first instance of \<open>sep\<close> in \<open>s\<close>,
  or \<open>-1\<close> when there is none.
\<close>

fun bytes_Index :: "bytes \<Rightarrow> bytes \<Rightarrow> int" where
  "bytes_Index [] sep = (if sep = [] then 0 else -1)"
| "bytes_Index (c # cs) sep =
     (if prefix sep (c # cs) then 0
      else (let i = bytes_Index cs sep in if i = -1 then -1 else i + 1))"

subsection \<open>The notice object and its decoder\<close>

text \<open>
  The struct declared inside \<^verbatim>\<open>Write\<close>. \<^verbatim>\<open>Data\<close> is a \<^verbatim>\<open>json.RawMessage\<close>, a byte
  slice. \<^verbatim>\<open>var noticeObject NoticeObject\<close> is the zero value: every field empty.
\<close>

record NoticeObject =
  NoticeType :: bytes
  Data :: bytes
  Timestamp :: bytes

definition zero_NoticeObject :: NoticeObject where
  "zero_NoticeObject = \<lparr>NoticeType = [], Data = [], Timestamp = []\<rparr>"

text \<open>
  \<^verbatim>\<open>json.Unmarshal(line, &noticeObject)\<close> belongs to Go's standard library, not to
  this repository. It is a parameter of the model: a function from the line and the
  object it is given to the object it leaves behind and the error it returns.
\<close>

type_synonym unmarshal = "bytes \<Rightarrow> NoticeObject \<Rightarrow> NoticeObject \<times> error option"

subsection \<open>The rewriter\<close>

record NoticeConsoleRewriter =
  writer :: io_Writer
  buffer :: bytes

definition NewNoticeConsoleRewriter :: "io_Writer \<Rightarrow> NoticeConsoleRewriter" where
  "NewNoticeConsoleRewriter w = \<lparr>writer = w, buffer = []\<rparr>"

text \<open>
  \<^verbatim>\<open>Write\<close> returns \<open>(n, err)\<close>; the model returns the rewriter and the writers as
  the call leaves them as well. The chunk is appended; when the buffer then holds no
  newline the call returns. Otherwise the bytes before the first newline are the line,
  the buffer keeps what follows that newline, the line is decoded into a zero
  \<^verbatim>\<open>NoticeObject\<close> (the decoder's error is dropped), and the three fields are printed
  to \<^verbatim>\<open>os.Stderr\<close> (the result of \<^verbatim>\<open>Fprintf\<close> is dropped).
\<close>

definition Write ::
  "unmarshal \<Rightarrow> NoticeConsoleRewriter \<Rightarrow> bytes \<Rightarrow> world
     \<Rightarrow> (nat \<times> error option) \<times> NoticeConsoleRewriter \<times> world" where
  "Write json_Unmarshal rewriter p w =
     (let buf = buffer rewriter @ p;
          index = bytes_Index buf [newline]
      in if index = -1 then ((length p, None), rewriter\<lparr>buffer := buf\<rparr>, w)
         else
           (let line = take (nat index) buf;
                rewriter' = rewriter\<lparr>buffer := drop (nat (index + 1)) buf\<rparr>;
                noticeObject = fst (json_Unmarshal line zero_NoticeObject);
                w' = snd (fmt_Fprintf os_Stderr (Timestamp noticeObject)
                            (NoticeType noticeObject) (Data noticeObject) w)
            in ((length p, None), rewriter', w')))"

text \<open>The line that \<^verbatim>\<open>Write\<close> prints for an extracted line \<open>l\<close>: the fields of the object
  that the decoder leaves when it is given \<open>l\<close> and the zero object.\<close>

definition notice_line :: "unmarshal \<Rightarrow> bytes \<Rightarrow> bytes" where
  "notice_line um l =
     Sprintf_notice (Timestamp (fst (um l zero_NoticeObject)))
       (NoticeType (fst (um l zero_NoticeObject))) (Data (fst (um l zero_NoticeObject)))"

text \<open>The writers after \<^verbatim>\<open>os.Stderr\<close> has taken one more chunk.\<close>

abbreviation stderr_gets :: "world \<Rightarrow> bytes \<Rightarrow> world" where
  "stderr_gets w line \<equiv>
     w(os_Stderr := (w os_Stderr)\<lparr>received := received (w os_Stderr) @ [line]\<rparr>)"

text \<open>A caller making one \<^verbatim>\<open>Write\<close> call after another, one per chunk.\<close>

fun Write_each ::
  "unmarshal \<Rightarrow> NoticeConsoleRewriter \<Rightarrow> bytes list \<Rightarrow> world \<Rightarrow> NoticeConsoleRewriter \<times> world" where
  "Write_each um rewriter [] w = (rewriter, w)"
| "Write_each um rewriter (p # ps) w =
     (case Write um rewriter p w of (_, rewriter', w') \<Rightarrow> Write_each um rewriter' ps w')"

subsection \<open>Inputs of the examples\<close>

definition notice_hi :: bytes where
  \<open>notice_hi = ''{"noticeType":"Info","data":{"msg":"hi"},"timestamp":"2024-01-01T00:00:00Z"}''\<close>

definition notice_T :: bytes where
  \<open>notice_T = ''{"noticeType":"Info","data":{},"timestamp":"T"}''\<close>

text \<open>
  A decoder for the examples. On the two notice lines above it fills the object as
  \<^verbatim>\<open>encoding/json\<close> does (the strings unquoted, the raw message as it stands in the
  line); every other line it rejects with a syntax error and leaves the object as it
  was, which is what \<^verbatim>\<open>encoding/json\<close> does with a line that is not JSON. The
  examples give it these two lines and lines that are not JSON, nothing else.
\<close>

definition example_Unmarshal :: unmarshal where
  \<open>example_Unmarshal line v =
     (if line = notice_hi then
        (v\<lparr>NoticeType := ''Info'', Data := ''{"msg":"hi"}'',
           Timestamp := ''2024-01-01T00:00:00Z''\<rparr>, None)
      else if line = notice_T then
        (v\<lparr>NoticeType := ''Info'', Data := ''{}'', Timestamp := ''T''\<rparr>, None)
      else (v, Some SyntaxError))\<close>

text \<open>Writers that have taken nothing yet: all working, or with a failing \<^verbatim>\<open>os.Stderr\<close>.\<close>

definition fresh_world :: world where
  "fresh_world = (\<lambda>_. \<lparr>received = [], failing = False\<rparr>)"

definition stderr_closed_world :: world where
  "stderr_closed_world = fresh_world(os_Stderr := \<lparr>received = [], failing = True\<rparr>)"

section \<open>Properties\<close>

subsection \<open>Finding the first newline\<close>

lemma bytes_Index_ge: "- 1 \<le> bytes_Index s sep"
  by (induction s) (auto simp: Let_def)

lemma bytes_Index_none: "(bytes_Index s [c] = - 1) = (c \<notin> set s)"
proof (induction s)
  case Nil
  show ?case by simp
next
  case (Cons a s)
  show ?case
  proof (cases "a = c")
    case True
    then show ?thesis by simp
  next
    case False
    have "- 1 \<le> bytes_Index s [c]" by (rule bytes_Index_ge)
    with False Cons.IH show ?thesis by (auto simp: Let_def)
  qed
qed

lemma bytes_Index_first:
  "c \<notin> set l \<Longrightarrow> bytes_Index (l @ c # r) [c] = int (length l)"
proof (induction l)
  case Nil
  show ?case by simp
next
  case (Cons a l)
  then have "a \<noteq> c" and ih: "bytes_Index (l @ c # r) [c] = int (length l)" by auto
  then show ?case by (simp add: Let_def)
qed

text \<open>The two slice expressions of \<^verbatim>\<open>Write\<close> are in range whenever they are reached.\<close>

lemma bytes_Index_in_range:
  assumes "bytes_Index s [c] \<noteq> - 1"
  shows "0 \<le> bytes_Index s [c] \<and> bytes_Index s [c] < int (length s)"
proof -
  from assms have "c \<in> set s" by (simp add: bytes_Index_none)
  then obtain l r where s: "s = l @ c # r" and l: "c \<notin> set l"
    by (auto dest: split_list_first)
  from l have "bytes_Index s [c] = int (length l)" unfolding s by (rule bytes_Index_first)
  then show ?thesis by (simp add: s)
qed

subsection \<open>One call of Write\<close>

lemma Write_no_newline:
  assumes "newline \<notin> set (buffer rewriter @ p)"
  shows "Write um rewriter p w = ((length p, None), rewriter\<lparr>buffer := buffer rewriter @ p\<rparr>, w)"
proof -
  from assms have "bytes_Index (buffer rewriter @ p) [newline] = - 1"
    using bytes_Index_none [of "buffer rewriter @ p" newline] by simp
  then show ?thesis by (simp add: Write_def Let_def)
qed

lemma Write_line:
  assumes split: "buffer rewriter @ p = l @ newline # rest"
    and l: "newline \<notin> set l"
  shows "Write um rewriter p w =
    ((length p, None), rewriter\<lparr>buffer := rest\<rparr>,
     snd (io_Write os_Stderr
       (Sprintf_notice (Timestamp (fst (um l zero_NoticeObject)))
          (NoticeType (fst (um l zero_NoticeObject)))
          (Data (fst (um l zero_NoticeObject)))) w))"
proof -
  from l have idx: "bytes_Index (l @ newline # rest) [newline] = int (length l)"
    by (rule bytes_Index_first)
  have suc: "nat (int (length l) + 1) = Suc (length l)" by simp
  show ?thesis
    unfolding Write_def split Let_def idx fmt_Fprintf_def suc
    by simp
qed

lemma io_Write_working:
  "\<not> failing (w dst) \<Longrightarrow>
     io_Write dst p w = ((length p, None), w(dst := (w dst)\<lparr>received := received (w dst) @ [p]\<rparr>))"
  by (simp add: io_Write_def)

lemma io_Write_failing:
  "failing (w dst) \<Longrightarrow> io_Write dst p w = ((0, Some WriteError), w)"
  by (simp add: io_Write_def)

lemma Write_line_working:
  assumes "buffer rewriter @ p = l @ newline # rest" and "newline \<notin> set l"
    and "\<not> failing (w os_Stderr)"
  shows "Write um rewriter p w =
    ((length p, None), rewriter\<lparr>buffer := rest\<rparr>,
     stderr_gets w (notice_line um l))"
  using assms by (simp add: Write_line io_Write_working notice_line_def)

text \<open>No call touches a writer other than \<^verbatim>\<open>os.Stderr\<close>, or the rewriter's writer field.\<close>

lemma Write_other_writers:
  "dst \<noteq> os_Stderr \<Longrightarrow> snd (snd (Write um rewriter p w)) dst = w dst"
  by (simp add: Write_def Let_def fmt_Fprintf_def io_Write_def)

lemma Write_writer: "writer (fst (snd (Write um rewriter p w))) = writer rewriter"
  by (simp add: Write_def Let_def)

lemma first_newline_split:
  assumes "c \<in> set s"
  obtains l rest where "s = l @ c # rest" and "c \<notin> set l"
  using split_list_first [OF assms] by blast

lemma count_list_zero: "c \<notin> set s \<Longrightarrow> count_list s c = 0"
  by (induction s) auto

subsection \<open>Several calls\<close>

lemma Write_each_no_newline:
  "newline \<notin> set (buffer rewriter @ concat chunks) \<Longrightarrow>
     Write_each um rewriter chunks w = (rewriter\<lparr>buffer := buffer rewriter @ concat chunks\<rparr>, w)"
proof (induction chunks arbitrary: rewriter)
  case Nil
  show ?case by simp
next
  case (Cons p ps)
  from Cons.prems have p: "newline \<notin> set (buffer rewriter @ p)" by simp
  let ?r = "rewriter\<lparr>buffer := buffer rewriter @ p\<rparr>"
  from Cons.prems have "newline \<notin> set (buffer ?r @ concat ps)" by simp
  then have "Write_each um ?r ps w = (?r\<lparr>buffer := buffer ?r @ concat ps\<rparr>, w)"
    by (rule Cons.IH)
  then show ?case by (simp add: Write_no_newline [OF p])
qed

subsection \<open>The example inputs\<close>

lemma newline_notin_notice_T: "newline \<notin> set notice_T"
  by (simp add: notice_T_def)

lemma newline_notin_notice_hi: "newline \<notin> set notice_hi"
  by (simp add: notice_hi_def)

lemma notice_T_neq_hi: "notice_T \<noteq> notice_hi"
  by (simp add: notice_T_def notice_hi_def)

lemma example_Unmarshal_T:
  \<open>example_Unmarshal notice_T zero_NoticeObject =
     (\<lparr>NoticeType = ''Info'', Data = ''{}'', Timestamp = ''T''\<rparr>, None)\<close>
  by (simp add: example_Unmarshal_def notice_T_neq_hi zero_NoticeObject_def)

lemma example_Unmarshal_hi:
  \<open>example_Unmarshal notice_hi zero_NoticeObject =
     (\<lparr>NoticeType = ''Info'', Data = ''{"msg":"hi"}'',
       Timestamp = ''2024-01-01T00:00:00Z''\<rparr>, None)\<close>
  by (simp add: example_Unmarshal_def zero_NoticeObject_def)

lemma example_Unmarshal_not_json:
  "example_Unmarshal ''not json'' zero_NoticeObject = (zero_NoticeObject, Some SyntaxError)"
  by (simp add: example_Unmarshal_def notice_T_def notice_hi_def)

lemma notice_line_T: "notice_line example_Unmarshal notice_T = ''T Info {}\<newline>''"
  by (simp add: notice_line_def example_Unmarshal_T Sprintf_notice_def)

lemma notice_line_hi:
  \<open>notice_line example_Unmarshal notice_hi =
     ''2024-01-01T00:00:00Z Info {"msg":"hi"}\<newline>''\<close>
  by (simp add: notice_line_def example_Unmarshal_hi Sprintf_notice_def)

lemma fresh_world_working: "\<not> failing (fresh_world dst)"
  by (simp add: fresh_world_def)

lemma two_notices_in_one_call:
  "Write example_Unmarshal (NewNoticeConsoleRewriter dst)
      (notice_T @ [newline] @ notice_hi @ [newline]) fresh_world =
     ((length notice_T + length notice_hi + 2, None),
      \<lparr>writer = dst, buffer = notice_hi @ [newline]\<rparr>,
      stderr_gets fresh_world ''T Info {}\<newline>'')"
proof -
  have "buffer (NewNoticeConsoleRewriter dst) @ (notice_T @ [newline] @ notice_hi @ [newline])
      = notice_T @ newline # (notice_hi @ [newline])"
    by (simp add: NewNoticeConsoleRewriter_def)
  from Write_line_working [OF this newline_notin_notice_T fresh_world_working, of example_Unmarshal]
  show ?thesis by (simp add: notice_line_T NewNoticeConsoleRewriter_def)
qed

section \<open>The claims\<close>

text \<open>
  C1, as the code has it. A call extracts, formats and emits one line: the first
  complete newline-terminated line of the buffer after the chunk is appended, when
  there is one. The bytes after that line's newline stay in the buffer, in arrival
  order, complete lines among them too; each later call emits the first of them.
  So two complete lines fed in one call give one output line in that call, and the
  second line comes out with the next call.
\<close>

theorem C1_first_line_only:
  assumes "buffer rewriter @ p = l @ [newline] @ rest"
    and "newline \<notin> set l"
    and "\<not> failing (w os_Stderr)"
  shows "Write um rewriter p w =
    ((length p, None), rewriter\<lparr>buffer := rest\<rparr>, stderr_gets w (notice_line um l))"
proof -
  from assms(1) have "buffer rewriter @ p = l @ newline # rest" by simp
  then show ?thesis using assms(2,3) by (rule Write_line_working)
qed

theorem C1_first_line_only_witness:
  \<open>newline \<notin> set notice_T \<and> newline \<notin> set notice_hi \<and>
   Write example_Unmarshal (NewNoticeConsoleRewriter os_Stderr)
      (notice_T @ [newline] @ notice_hi @ [newline]) fresh_world =
     ((length notice_T + length notice_hi + 2, None),
      \<lparr>writer = os_Stderr, buffer = notice_hi @ [newline]\<rparr>,
      stderr_gets fresh_world ''T Info {}\<newline>'')
   \<and> Write example_Unmarshal \<lparr>writer = os_Stderr, buffer = notice_hi @ [newline]\<rparr> []
      (stderr_gets fresh_world ''T Info {}\<newline>'') =
     ((0, None), \<lparr>writer = os_Stderr, buffer = []\<rparr>,
      stderr_gets (stderr_gets fresh_world ''T Info {}\<newline>'')
        ''2024-01-01T00:00:00Z Info {"msg":"hi"}\<newline>'')\<close>
proof -
  have c: "\<not> failing ((stderr_gets fresh_world ''T Info {}\<newline>'') os_Stderr)"
    by (simp add: fresh_world_def)
  show ?thesis
    using C1_first_line_only [where um = example_Unmarshal
        and rewriter = "NewNoticeConsoleRewriter os_Stderr"
        and p = "notice_T @ [newline] @ notice_hi @ [newline]" and l = notice_T
        and rest = "notice_hi @ [newline]" and w = fresh_world]
      C1_first_line_only [where um = example_Unmarshal
        and rewriter = "\<lparr>writer = os_Stderr, buffer = notice_hi @ [newline]\<rparr>"
        and p = "[]" and l = notice_hi and rest = "[]"
        and w = "stderr_gets fresh_world ''T Info {}\<newline>''"]
      newline_notin_notice_T newline_notin_notice_hi fresh_world_working c
    by (simp add: notice_line_T notice_line_hi NewNoticeConsoleRewriter_def)
qed

text \<open>
  C1 as stated fails: two complete notice lines fed to a new rewriter in one call
  give one output line, not two, and the second line is still in the buffer when
  the call returns.
\<close>

theorem C1_two_lines_counterexample:
  "received (snd (snd (Write example_Unmarshal (NewNoticeConsoleRewriter os_Stderr)
       (notice_T @ [newline] @ notice_hi @ [newline]) fresh_world)) os_Stderr)
     = [''T Info {}\<newline>'']
   \<and> length (received (snd (snd (Write example_Unmarshal (NewNoticeConsoleRewriter os_Stderr)
       (notice_T @ [newline] @ notice_hi @ [newline]) fresh_world)) os_Stderr)) \<noteq> 2
   \<and> buffer (fst (snd (Write example_Unmarshal (NewNoticeConsoleRewriter os_Stderr)
       (notice_T @ [newline] @ notice_hi @ [newline]) fresh_world))) = notice_hi @ [newline]"
  unfolding two_notices_in_one_call by (simp add: fresh_world_def)

text \<open>
  C2 fails on the code. The rewriter made for a writer other than \<^verbatim>\<open>os.Stderr\<close>
  keeps that writer in its field, and \<^verbatim>\<open>Write\<close> prints the line to \<^verbatim>\<open>os.Stderr\<close>:
  the writer it was made for receives nothing.
\<close>

theorem C2_line_bypasses_writer:
  "writer (NewNoticeConsoleRewriter (other_Writer 0)) = other_Writer 0
   \<and> received (snd (snd (Write example_Unmarshal (NewNoticeConsoleRewriter (other_Writer 0))
        (notice_T @ [newline]) fresh_world)) (other_Writer 0)) = []
   \<and> received (snd (snd (Write example_Unmarshal (NewNoticeConsoleRewriter (other_Writer 0))
        (notice_T @ [newline]) fresh_world)) os_Stderr) = [''T Info {}\<newline>'']"
proof -
  have "buffer (NewNoticeConsoleRewriter (other_Writer 0)) @ (notice_T @ [newline])
      = notice_T @ newline # []"
    by (simp add: NewNoticeConsoleRewriter_def)
  from Write_line_working [OF this newline_notin_notice_T fresh_world_working, of example_Unmarshal]
  show ?thesis by (simp add: notice_line_T NewNoticeConsoleRewriter_def fresh_world_def)
qed

text \<open>
  C3, as the code has it: for every chunk and every state, \<^verbatim>\<open>Write\<close> returns the
  length of the chunk and a nil error, whether the write of the line succeeds or
  fails.
\<close>

theorem C3_always_len_and_nil:
  "fst (Write um rewriter p w) = (length p, None)"
  by (simp add: Write_def Let_def)

text \<open>
  C3 as stated fails: with \<^verbatim>\<open>os.Stderr\<close> failing, the \<^verbatim>\<open>Fprintf\<close> of the line
  returns an error and delivers nothing, and \<^verbatim>\<open>Write\<close> still returns a nil error.
\<close>

theorem C3_failed_write_counterexample:
  "fst (fmt_Fprintf os_Stderr ''T'' ''Info'' ''{}'' stderr_closed_world) = (0, Some WriteError)
   \<and> Write example_Unmarshal (NewNoticeConsoleRewriter os_Stderr) (notice_T @ [newline])
        stderr_closed_world =
      ((length notice_T + 1, None), \<lparr>writer = os_Stderr, buffer = []\<rparr>, stderr_closed_world)"
proof -
  have f: "failing (stderr_closed_world os_Stderr)"
    by (simp add: stderr_closed_world_def)
  have "buffer (NewNoticeConsoleRewriter os_Stderr) @ (notice_T @ [newline])
      = notice_T @ newline # []"
    by (simp add: NewNoticeConsoleRewriter_def)
  from Write_line [OF this newline_notin_notice_T, of example_Unmarshal stderr_closed_world]
  show ?thesis
    using f by (simp add: io_Write_failing fmt_Fprintf_def NewNoticeConsoleRewriter_def)
qed

text \<open>
  C4, as the code has it. A call removes at most one newline from the buffer: after
  it the buffer holds one newline fewer than the buffer before the call followed by
  the chunk did (none when that held none). So the buffer is free of newlines after
  the call exactly when buffer and chunk together held at most one.
\<close>

theorem C4_one_newline_fewer:
  "count_list (buffer (fst (snd (Write um rewriter p w)))) newline =
     count_list (buffer rewriter @ p) newline - 1 \<and>
   (newline \<notin> set (buffer (fst (snd (Write um rewriter p w))))) =
     (count_list (buffer rewriter @ p) newline \<le> 1)"
proof (cases "newline \<in> set (buffer rewriter @ p)")
  case False
  then have "count_list (buffer rewriter @ p) newline = 0" by (rule count_list_zero)
  with False show ?thesis by (simp add: Write_no_newline)
next
  case True
  then obtain l rest where s: "buffer rewriter @ p = l @ newline # rest"
    and l: "newline \<notin> set l"
    by (rule first_newline_split)
  from l have c0: "count_list l newline = 0" by (rule count_list_zero)
  have b: "buffer (fst (snd (Write um rewriter p w))) = rest"
    using Write_line [OF s l, of um w] by simp
  have "(newline \<notin> set rest) = (count_list rest newline = 0)"
    using count_list_0_iff [of rest newline] by simp
  then show ?thesis unfolding b s using c0 by simp
qed

text \<open>
  C4 as stated fails: after the first call on a new rewriter, with a chunk of two
  complete lines, the buffer holds the second line and its newline.
\<close>

theorem C4_newline_left_counterexample:
  "newline \<in> set (buffer (fst (snd (Write example_Unmarshal
      (NewNoticeConsoleRewriter os_Stderr)
      (notice_T @ [newline] @ notice_hi @ [newline]) fresh_world))))"
  unfolding two_notices_in_one_call by simp

text \<open>
  C5. A line \<open>L\<close> that \<^verbatim>\<open>json.Unmarshal\<close> decodes without error into the fields
  \<open>nt\<close>, \<open>d\<close>, \<open>ts\<close> (of which \<open>d\<close> is the raw message), fed with its newline to a
  rewriter with an empty buffer in one call, gives exactly one output line,
  \<open>ts\<close>, space, \<open>nt\<close>, space, \<open>d\<close>, newline, with \<open>d\<close> as the decoder left it; the
  buffer is empty afterwards. The line is written to \<^verbatim>\<open>os.Stderr\<close>.
\<close>

theorem C5_one_line_formatted:
  assumes "um L zero_NoticeObject = (\<lparr>NoticeType = nt, Data = d, Timestamp = ts\<rparr>, None)"
    and "newline \<notin> set L"
    and "buffer rewriter = []"
    and "\<not> failing (w os_Stderr)"
  shows "Write um rewriter (L @ [newline]) w =
    ((length L + 1, None), rewriter,
     stderr_gets w (ts @ '' '' @ nt @ '' '' @ d @ [newline]))"
proof -
  from assms(3) have "buffer rewriter @ (L @ [newline]) = L @ newline # []" by simp
  then have "Write um rewriter (L @ [newline]) w =
      ((length (L @ [newline]), None), rewriter\<lparr>buffer := []\<rparr>,
       stderr_gets w (notice_line um L))"
    using assms(2) assms(4) by (rule Write_line_working)
  moreover have "notice_line um L = ts @ '' '' @ nt @ '' '' @ d @ [newline]"
    by (simp add: notice_line_def assms(1) Sprintf_notice_def)
  moreover from assms(3) have "rewriter\<lparr>buffer := []\<rparr> = rewriter" by simp
  ultimately show ?thesis by simp
qed

theorem C5_one_line_formatted_witness:
  \<open>example_Unmarshal notice_hi zero_NoticeObject =
     (\<lparr>NoticeType = ''Info'', Data = ''{"msg":"hi"}'',
       Timestamp = ''2024-01-01T00:00:00Z''\<rparr>, None)
   \<and> newline \<notin> set notice_hi
   \<and> Write example_Unmarshal (NewNoticeConsoleRewriter os_Stderr) (notice_hi @ [newline])
        fresh_world =
     ((length notice_hi + 1, None), NewNoticeConsoleRewriter os_Stderr,
      stderr_gets fresh_world ''2024-01-01T00:00:00Z Info {"msg":"hi"}\<newline>'')\<close>
proof -
  have b: "buffer (NewNoticeConsoleRewriter os_Stderr) = []"
    by (simp add: NewNoticeConsoleRewriter_def)
  show ?thesis
    using C5_one_line_formatted [where um = example_Unmarshal and L = notice_hi
        and rewriter = "NewNoticeConsoleRewriter os_Stderr" and w = fresh_world
        and nt = "''Info''" and ts = "''2024-01-01T00:00:00Z''"
        and d = "Data (fst (example_Unmarshal notice_hi zero_NoticeObject))"]
      example_Unmarshal_hi newline_notin_notice_hi b fresh_world_working [of os_Stderr]
    by simp
qed

text \<open>
  C6. A line \<open>L\<close> that decodes without error, cut into the chunks \<open>chunks\<close> and a
  last chunk that carries the rest of the line and the newline, and fed to a
  rewriter with an empty buffer one chunk per call: after any number \<open>k\<close> of the
  calls before the last one nothing has been written and the buffer holds the bytes
  fed so far; the last call writes exactly one line, the formatted notice, and
  leaves the buffer empty.
\<close>

theorem C6_split_line:
  assumes "um L zero_NoticeObject = (\<lparr>NoticeType = nt, Data = d, Timestamp = ts\<rparr>, None)"
    and "L = concat chunks @ tail"
    and "newline \<notin> set L"
    and "buffer rewriter = []"
    and "\<not> failing (w os_Stderr)"
  shows "Write_each um rewriter (take k chunks) w =
      (rewriter\<lparr>buffer := concat (take k chunks)\<rparr>, w)
    \<and> Write um (fst (Write_each um rewriter chunks w)) (tail @ [newline])
        (snd (Write_each um rewriter chunks w)) =
      ((length tail + 1, None), rewriter,
       stderr_gets w (ts @ '' '' @ nt @ '' '' @ d @ [newline]))"
proof -
  have "set (concat (take k chunks)) \<subseteq> set (concat chunks)"
    using set_take_subset [of k chunks] by auto
  with assms(2,3) have "newline \<notin> set (concat (take k chunks))" by auto
  with assms(4) have "newline \<notin> set (buffer rewriter @ concat (take k chunks))" by simp
  then have "Write_each um rewriter (take k chunks) w =
      (rewriter\<lparr>buffer := buffer rewriter @ concat (take k chunks)\<rparr>, w)"
    by (rule Write_each_no_newline)
  with assms(4) have before: "Write_each um rewriter (take k chunks) w =
      (rewriter\<lparr>buffer := concat (take k chunks)\<rparr>, w)"
    by simp
  from assms(2,3,4) have "newline \<notin> set (buffer rewriter @ concat chunks)" by simp
  then have "Write_each um rewriter chunks w =
      (rewriter\<lparr>buffer := buffer rewriter @ concat chunks\<rparr>, w)"
    by (rule Write_each_no_newline)
  with assms(4) have all: "Write_each um rewriter chunks w =
      (rewriter\<lparr>buffer := concat chunks\<rparr>, w)"
    by simp
  have "buffer (rewriter\<lparr>buffer := concat chunks\<rparr>) @ (tail @ [newline]) = L @ newline # []"
    by (simp add: assms(2))
  then have "Write um (rewriter\<lparr>buffer := concat chunks\<rparr>) (tail @ [newline]) w =
      ((length (tail @ [newline]), None), rewriter\<lparr>buffer := concat chunks\<rparr>\<lparr>buffer := []\<rparr>,
       stderr_gets w (notice_line um L))"
    using assms(3) assms(5) by (rule Write_line_working)
  moreover have "notice_line um L = ts @ '' '' @ nt @ '' '' @ d @ [newline]"
    by (simp add: notice_line_def assms(1) Sprintf_notice_def)
  moreover from assms(4) have "rewriter\<lparr>buffer := concat chunks\<rparr>\<lparr>buffer := []\<rparr> = rewriter"
    by simp
  ultimately have final: "Write um (rewriter\<lparr>buffer := concat chunks\<rparr>) (tail @ [newline]) w =
      ((length tail + 1, None), rewriter,
       stderr_gets w (ts @ '' '' @ nt @ '' '' @ d @ [newline]))"
    by simp
  show ?thesis unfolding all fst_conv snd_conv using before final by (rule conjI)
qed

theorem C6_split_line_witness:
  \<open>notice_T = concat [''{"noticeType":"Info",''] @ ''"data":{},"timestamp":"T"}''
   \<and> newline \<notin> set notice_T
   \<and> Write_each example_Unmarshal (NewNoticeConsoleRewriter os_Stderr)
        (take 1 [''{"noticeType":"Info",'']) fresh_world =
      (\<lparr>writer = os_Stderr, buffer = ''{"noticeType":"Info",''\<rparr>, fresh_world)
   \<and> Write example_Unmarshal
        (fst (Write_each example_Unmarshal (NewNoticeConsoleRewriter os_Stderr)
           [''{"noticeType":"Info",''] fresh_world))
        (''"data":{},"timestamp":"T"}'' @ [newline])
        (snd (Write_each example_Unmarshal (NewNoticeConsoleRewriter os_Stderr)
           [''{"noticeType":"Info",''] fresh_world)) =
      ((length ''"data":{},"timestamp":"T"}'' + 1, None), NewNoticeConsoleRewriter os_Stderr,
       stderr_gets fresh_world ''T Info {}\<newline>'')\<close>
proof -
  have b: "buffer (NewNoticeConsoleRewriter os_Stderr) = []"
    by (simp add: NewNoticeConsoleRewriter_def)
  have c: \<open>notice_T = concat [''{"noticeType":"Info",''] @ ''"data":{},"timestamp":"T"}''\<close>
    by (simp add: notice_T_def)
  note inst = C6_split_line [where um = example_Unmarshal and L = notice_T
      and chunks = "[''{\"noticeType\":\"Info\",'']" and tail = "''\"data\":{},\"timestamp\":\"T\"}''"
      and rewriter = "NewNoticeConsoleRewriter os_Stderr" and w = fresh_world and k = 1
      and nt = "''Info''" and d = "''{}''" and ts = "''T''",
      OF example_Unmarshal_T c newline_notin_notice_T b fresh_world_working]
  have A: \<open>Write_each example_Unmarshal (NewNoticeConsoleRewriter os_Stderr)
        (take 1 [''{"noticeType":"Info",'']) fresh_world =
      (\<lparr>writer = os_Stderr, buffer = ''{"noticeType":"Info",''\<rparr>, fresh_world)\<close>
    using inst [THEN conjunct1]
    by (simp add: NewNoticeConsoleRewriter_def del: Write_each.simps)
  have B: \<open>Write example_Unmarshal
        (fst (Write_each example_Unmarshal (NewNoticeConsoleRewriter os_Stderr)
           [''{"noticeType":"Info",''] fresh_world))
        (''"data":{},"timestamp":"T"}'' @ [newline])
        (snd (Write_each example_Unmarshal (NewNoticeConsoleRewriter os_Stderr)
           [''{"noticeType":"Info",''] fresh_world)) =
      ((length ''"data":{},"timestamp":"T"}'' + 1, None), NewNoticeConsoleRewriter os_Stderr,
       stderr_gets fresh_world ''T Info {}\<newline>'')\<close>
    using inst [THEN conjunct2]
    by (simp add: NewNoticeConsoleRewriter_def del: Write_each.simps)
  show ?thesis
    by (intro conjI) (rule c newline_notin_notice_T A B)+
qed

text \<open>
  C7, as the code has it. On a rewriter whose buffer holds no newline, \<^verbatim>\<open>Write\<close>
  with the empty chunk produces no output and leaves the rewriter as it was.
\<close>

theorem C7_empty_chunk_idle:
  assumes "newline \<notin> set (buffer rewriter)"
  shows "Write um rewriter [] w = ((0, None), rewriter, w)"
proof -
  from assms have "newline \<notin> set (buffer rewriter @ [])" by simp
  then have "Write um rewriter [] w =
      ((length ([] :: bytes), None), rewriter\<lparr>buffer := buffer rewriter @ []\<rparr>, w)"
    by (rule Write_no_newline)
  then show ?thesis by simp
qed

theorem C7_empty_chunk_idle_witness:
  \<open>newline \<notin> set (buffer \<lparr>writer = os_Stderr, buffer = ''{"noticeType":"Info",''\<rparr>)
   \<and> Write example_Unmarshal \<lparr>writer = os_Stderr, buffer = ''{"noticeType":"Info",''\<rparr> []
        fresh_world =
      ((0, None), \<lparr>writer = os_Stderr, buffer = ''{"noticeType":"Info",''\<rparr>, fresh_world)\<close>
proof -
  have n: \<open>newline \<notin> set (buffer \<lparr>writer = os_Stderr, buffer = ''{"noticeType":"Info",''\<rparr>)\<close>
    by simp
  from n C7_empty_chunk_idle [OF n, of example_Unmarshal fresh_world]
  show ?thesis by (rule conjI)
qed

text \<open>
  C7 as stated fails. The rewriter that a call with two complete lines leaves
  behind holds the second line in its buffer; \<^verbatim>\<open>Write\<close> with the empty chunk on
  that state emits the line and empties the buffer.
\<close>

theorem C7_empty_chunk_counterexample:
  \<open>fst (snd (Write example_Unmarshal (NewNoticeConsoleRewriter os_Stderr)
      (notice_T @ [newline] @ notice_hi @ [newline]) fresh_world)) =
     \<lparr>writer = os_Stderr, buffer = notice_hi @ [newline]\<rparr>
   \<and> Write example_Unmarshal \<lparr>writer = os_Stderr, buffer = notice_hi @ [newline]\<rparr> []
        fresh_world =
      ((0, None), \<lparr>writer = os_Stderr, buffer = []\<rparr>,
       stderr_gets fresh_world ''2024-01-01T00:00:00Z Info {"msg":"hi"}\<newline>'')
   \<and> received (snd (snd (Write example_Unmarshal
        \<lparr>writer = os_Stderr, buffer = notice_hi @ [newline]\<rparr> [] fresh_world)) os_Stderr)
      \<noteq> received (fresh_world os_Stderr)
   \<and> buffer (fst (snd (Write example_Unmarshal
        \<lparr>writer = os_Stderr, buffer = notice_hi @ [newline]\<rparr> [] fresh_world)))
      \<noteq> notice_hi @ [newline]\<close>
proof -
  have "buffer \<lparr>writer = os_Stderr, buffer = notice_hi @ [newline]\<rparr> @ [] = notice_hi @ newline # []"
    by simp
  then have W: "Write example_Unmarshal \<lparr>writer = os_Stderr, buffer = notice_hi @ [newline]\<rparr> []
      fresh_world =
    ((length ([] :: bytes), None),
     \<lparr>writer = os_Stderr, buffer = notice_hi @ [newline]\<rparr>\<lparr>buffer := []\<rparr>,
     stderr_gets fresh_world (notice_line example_Unmarshal notice_hi))"
    using newline_notin_notice_hi fresh_world_working by (rule Write_line_working)
  show ?thesis unfolding two_notices_in_one_call W
    by (simp add: notice_line_hi fresh_world_def)
qed

text \<open>
  C8. Let \<open>bad\<close> be a line on which \<^verbatim>\<open>json.Unmarshal\<close> returns an error \<open>e\<close>,
  leaving the object \<open>obj\<close>, and \<open>good\<close> a line it decodes without error. In any
  state of the rewriter and for any chunk \<open>p\<close>, when \<open>bad\<close> is the first complete line
  of the buffer followed by \<open>p\<close>, the call returns the length of \<open>p\<close> and a nil error
  and writes exactly one line, made of the fields of \<open>obj\<close>; the bytes \<open>rest\<close> after
  the newline of \<open>bad\<close> stay in the buffer. The decoder was handed the zero object, so
  a field it did not set is the empty string; when it set none the line is two
  spaces and a newline. When \<open>good\<close> is the first complete line of \<open>rest\<close> followed by
  the next chunk \<open>q\<close>, the next call writes the formatted notice as the one further
  line and keeps what follows it.
\<close>

theorem C8_decode_failure_tolerated:
  assumes "um bad zero_NoticeObject = (obj, Some e)"
    and "um good zero_NoticeObject = (\<lparr>NoticeType = nt, Data = d, Timestamp = ts\<rparr>, None)"
    and "buffer rewriter @ p = bad @ [newline] @ rest"
    and "newline \<notin> set bad"
    and "rest @ q = good @ [newline] @ rest'"
    and "newline \<notin> set good"
    and "\<not> failing (w os_Stderr)"
  shows "Write um rewriter p w =
      ((length p, None), rewriter\<lparr>buffer := rest\<rparr>,
       stderr_gets w (Timestamp obj @ '' '' @ NoticeType obj @ '' '' @ Data obj @ [newline]))
    \<and> Timestamp zero_NoticeObject @ '' '' @ NoticeType zero_NoticeObject @ '' ''
        @ Data zero_NoticeObject @ [newline] = ''  \<newline>''
    \<and> Write um (rewriter\<lparr>buffer := rest\<rparr>) q
        (stderr_gets w (Timestamp obj @ '' '' @ NoticeType obj @ '' '' @ Data obj @ [newline])) =
      ((length q, None), rewriter\<lparr>buffer := rest'\<rparr>,
       stderr_gets
         (stderr_gets w (Timestamp obj @ '' '' @ NoticeType obj @ '' '' @ Data obj @ [newline]))
         (ts @ '' '' @ nt @ '' '' @ d @ [newline]))"
proof -
  let ?w1 = "stderr_gets w (Timestamp obj @ '' '' @ NoticeType obj @ '' '' @ Data obj @ [newline])"
  let ?r1 = "rewriter\<lparr>buffer := rest\<rparr>"
  from assms(3) have "buffer rewriter @ p = bad @ newline # rest" by simp
  then have "Write um rewriter p w =
      ((length p, None), ?r1, stderr_gets w (notice_line um bad))"
    using assms(4) assms(7) by (rule Write_line_working)
  moreover have "notice_line um bad =
      Timestamp obj @ '' '' @ NoticeType obj @ '' '' @ Data obj @ [newline]"
    by (simp add: notice_line_def assms(1) Sprintf_notice_def)
  ultimately have first: "Write um rewriter p w = ((length p, None), ?r1, ?w1)"
    by simp
  have blank: "Timestamp zero_NoticeObject @ '' '' @ NoticeType zero_NoticeObject @ '' ''
        @ Data zero_NoticeObject @ [newline] = ''  \<newline>''"
    by (simp add: zero_NoticeObject_def)
  from assms(7) have working: "\<not> failing (?w1 os_Stderr)" by simp
  from assms(5) have "buffer ?r1 @ q = good @ newline # rest'" by simp
  then have "Write um ?r1 q ?w1 =
      ((length q, None), ?r1\<lparr>buffer := rest'\<rparr>, stderr_gets ?w1 (notice_line um good))"
    using assms(6) working by (rule Write_line_working)
  moreover have "notice_line um good = ts @ '' '' @ nt @ '' '' @ d @ [newline]"
    by (simp add: notice_line_def assms(2) Sprintf_notice_def)
  moreover have "?r1\<lparr>buffer := rest'\<rparr> = rewriter\<lparr>buffer := rest'\<rparr>" by simp
  ultimately have second: "Write um ?r1 q ?w1 =
      ((length q, None), rewriter\<lparr>buffer := rest'\<rparr>,
       stderr_gets ?w1 (ts @ '' '' @ nt @ '' '' @ d @ [newline]))"
    by simp
  show ?thesis
    by (intro conjI) (rule first blank second)+
qed

text \<open>
  The witness starts from a buffer that already holds the beginning of the bad line;
  the first chunk brings the rest of it, its newline and the beginning of a notice,
  the second chunk the rest of the notice and its newline.
\<close>

theorem C8_decode_failure_tolerated_witness:
  \<open>example_Unmarshal ''not json'' zero_NoticeObject = (zero_NoticeObject, Some SyntaxError)
   \<and> Write example_Unmarshal \<lparr>writer = os_Stderr, buffer = ''not ''\<rparr>
        (''json'' @ [newline] @ ''{"noticeType":"Info",'') fresh_world =
      ((26, None), \<lparr>writer = os_Stderr, buffer = ''{"noticeType":"Info",''\<rparr>,
       stderr_gets fresh_world ''  \<newline>'')
   \<and> Write example_Unmarshal \<lparr>writer = os_Stderr, buffer = ''{"noticeType":"Info",''\<rparr>
        (''"data":{},"timestamp":"T"}'' @ [newline]) (stderr_gets fresh_world ''  \<newline>'') =
      ((27, None), \<lparr>writer = os_Stderr, buffer = []\<rparr>,
       stderr_gets (stderr_gets fresh_world ''  \<newline>'') ''T Info {}\<newline>'')\<close>
proof -
  have s1: \<open>buffer \<lparr>writer = os_Stderr, buffer = ''not ''\<rparr>
        @ (''json'' @ [newline] @ ''{"noticeType":"Info",'')
      = ''not json'' @ [newline] @ ''{"noticeType":"Info",''\<close>
    by simp
  have s2: \<open>''{"noticeType":"Info",'' @ (''"data":{},"timestamp":"T"}'' @ [newline])
      = notice_T @ [newline] @ []\<close>
    by (simp add: notice_T_def)
  have n: "newline \<notin> set ''not json''" by simp
  note inst = C8_decode_failure_tolerated [where um = example_Unmarshal and bad = "''not json''"
      and good = notice_T and obj = zero_NoticeObject and e = SyntaxError
      and rewriter = "\<lparr>writer = os_Stderr, buffer = ''not ''\<rparr>" and w = fresh_world
      and p = "''json'' @ [newline] @ ''{\"noticeType\":\"Info\",''"
      and rest = "''{\"noticeType\":\"Info\",''"
      and q = "''\"data\":{},\"timestamp\":\"T\"}'' @ [newline]" and rest' = "[]"
      and nt = "''Info''" and d = "''{}''" and ts = "''T''",
      OF example_Unmarshal_not_json example_Unmarshal_T s1 n s2 newline_notin_notice_T
        fresh_world_working]
  have z: "Timestamp zero_NoticeObject @ '' '' @ NoticeType zero_NoticeObject @ '' ''
        @ Data zero_NoticeObject @ [newline] = ''  \<newline>''"
    by (rule inst [THEN conjunct2, THEN conjunct1])
  have A: \<open>Write example_Unmarshal \<lparr>writer = os_Stderr, buffer = ''not ''\<rparr>
        (''json'' @ [newline] @ ''{"noticeType":"Info",'') fresh_world =
      ((26, None), \<lparr>writer = os_Stderr, buffer = ''{"noticeType":"Info",''\<rparr>,
       stderr_gets fresh_world ''  \<newline>'')\<close>
    using inst [THEN conjunct1] unfolding z by simp
  have B: \<open>Write example_Unmarshal \<lparr>writer = os_Stderr, buffer = ''{"noticeType":"Info",''\<rparr>
        (''"data":{},"timestamp":"T"}'' @ [newline]) (stderr_gets fresh_world ''  \<newline>'') =
      ((27, None), \<lparr>writer = os_Stderr, buffer = []\<rparr>,
       stderr_gets (stderr_gets fresh_world ''  \<newline>'') ''T Info {}\<newline>'')\<close>
    using inst [THEN conjunct2, THEN conjunct2] unfolding z by simp
  show ?thesis
    by (intro conjI) (rule example_Unmarshal_not_json A B)+
qed

text \<open>
  C9 is about concurrent callers and the mutex; the model is sequential and does not
  state it.
\<close>

text \<open>
  C10. After a call the buffer is a suffix of the buffer before the call followed by
  the chunk. Either nothing was removed and nothing written, or what was removed
  from the front is one line without a newline and the newline ending it, and that
  line is the one decoded and printed.
\<close>

theorem C10_buffer_is_suffix:
  "suffix (buffer (fst (snd (Write um rewriter p w)))) (buffer rewriter @ p) \<and>
   ((buffer rewriter @ p = buffer (fst (snd (Write um rewriter p w))) \<and>
       snd (snd (Write um rewriter p w)) = w) \<or>
    (\<exists>l. buffer rewriter @ p = l @ [newline] @ buffer (fst (snd (Write um rewriter p w))) \<and>
         newline \<notin> set l \<and>
         snd (snd (Write um rewriter p w)) = snd (io_Write os_Stderr (notice_line um l) w)))"
proof (cases "newline \<in> set (buffer rewriter @ p)")
  case False
  then show ?thesis by (simp add: Write_no_newline)
next
  case True
  then obtain l rest where s: "buffer rewriter @ p = l @ newline # rest"
    and l: "newline \<notin> set l"
    by (rule first_newline_split)
  have W: "Write um rewriter p w =
      ((length p, None), rewriter\<lparr>buffer := rest\<rparr>,
       snd (io_Write os_Stderr (notice_line um l) w))"
    using Write_line [OF s l, of um w] by (simp add: notice_line_def)
  have b: "buffer (fst (snd (Write um rewriter p w))) = rest"
    and w': "snd (snd (Write um rewriter p w)) = snd (io_Write os_Stderr (notice_line um l) w)"
    by (simp_all add: W)
  have "buffer rewriter @ p = (l @ [newline]) @ rest" by (simp add: s)
  then have suf: "suffix rest (buffer rewriter @ p)" by (rule suffixI)
  have "buffer rewriter @ p = l @ [newline] @ rest \<and> newline \<notin> set l \<and>
      snd (snd (Write um rewriter p w)) = snd (io_Write os_Stderr (notice_line um l) w)"
    using s l w' by simp
  then have "\<exists>l. buffer rewriter @ p = l @ [newline] @ rest \<and> newline \<notin> set l \<and>
      snd (snd (Write um rewriter p w)) = snd (io_Write os_Stderr (notice_line um l) w)"
    by (rule exI)
  then show ?thesis unfolding b
  proof (intro conjI disjI2)
    show "suffix rest (buffer rewriter @ p)" by (rule suf)
  qed
qed

end
